theory Spec2Isabelle
  imports Main "HOL-Library.Sublist"
begin

section \<open>The SMB daemon form of cephadm (cephadmlib/daemons/smb.py)\<close>

text \<open>
  A shallow embedding of the container composition code of \<^verbatim>\<open>smb.py\<close>: the
  \<^verbatim>\<open>Config\<close> dataclass, the container role classes, \<^verbatim>\<open>SMB.validate\<close>,
  \<^verbatim>\<open>SMB._layout\<close>, the endpoint hook, the ctdb stub configuration and the
  \<^verbatim>\<open>_NetworkMapper\<close>.

  Conventions. A Python \<^verbatim>\<open>str\<close> is a \<^typ>\<open>string\<close> whose characters are read as
  code points 0..255; code points above 255 have no counterpart here. A Python
  exception is a value of type \<open>error\<close>, returned as \<open>Inl\<close>. A method that
  mutates \<^verbatim>\<open>self\<close> takes the instance record and returns the updated one.
  A \<^verbatim>\<open>dict\<close> whose insertion order is observable is an association list.
\<close>

subsection \<open>Python string operations used by the module\<close>

text \<open>\<^verbatim>\<open>str.isspace\<close> on one character, for the code points below 256.\<close>

definition isspace :: "char \<Rightarrow> bool" where
  "isspace c = ((of_char c :: nat) \<in> {9, 10, 11, 12, 13, 28, 29, 30, 31, 32, 133, 160})"

text \<open>\<^verbatim>\<open>str.strip()\<close> with no argument: leading and trailing whitespace removed.\<close>

definition strip :: "string \<Rightarrow> string" where
  "strip s = rev (dropWhile isspace (rev (dropWhile isspace s)))"

text \<open>\<^verbatim>\<open>sep.join(xs)\<close>.\<close>

fun join :: "string \<Rightarrow> string list \<Rightarrow> string" where
  "join sep [] = []"
| "join sep [x] = x"
| "join sep (x # y # ys) = x @ sep @ join sep (y # ys)"

text \<open>\<^verbatim>\<open>str(n)\<close> for an integer: decimal digits, a minus sign when negative.\<close>

definition digit :: "nat \<Rightarrow> char" where
  "digit d = ''0123456789'' ! d"

function str_nat :: "nat \<Rightarrow> string" where
  "str_nat n = (if n < 10 then [digit n] else str_nat (n div 10) @ [digit (n mod 10)])"
  by pat_completeness auto
termination
  by (relation "measure id") auto

declare str_nat.simps [simp del]

definition str :: "int \<Rightarrow> string" where
  "str i = (if i < 0 then CHR ''-'' # str_nat (nat (- i)) else str_nat (nat i))"

text \<open>
  \<^verbatim>\<open>json.dumps\<close> of a list of strings with the default options
  (\<^verbatim>\<open>ensure_ascii=True\<close>, item separator \<^verbatim>\<open>", "\<close>): every character outside
  space..tilde, and the quote and the backslash, is escaped.
\<close>

definition hexdigit :: "nat \<Rightarrow> char" where
  "hexdigit d = ''0123456789abcdef'' ! d"

definition json_escape :: "char \<Rightarrow> string" where
  "json_escape c =
     (let n = (of_char c :: nat) in
      if n = 34 then [CHR 0x5C, CHR 0x22]
      else if n = 92 then [CHR 0x5C, CHR 0x5C]
      else if n = 10 then [CHR 0x5C, CHR ''n'']
      else if n = 13 then [CHR 0x5C, CHR ''r'']
      else if n = 9 then [CHR 0x5C, CHR ''t'']
      else if n = 8 then [CHR 0x5C, CHR ''b'']
      else if n = 12 then [CHR 0x5C, CHR ''f'']
      else if 32 \<le> n \<and> n \<le> 126 then [c]
      else [CHR 0x5C, CHR ''u'', CHR ''0'', CHR ''0'', hexdigit (n div 16), hexdigit (n mod 16)])"

definition json_dumps_str :: "string \<Rightarrow> string" where
  "json_dumps_str s = CHR 0x22 # concat (map json_escape s) @ [CHR 0x22]"

definition json_dumps :: "string list \<Rightarrow> string" where
  "json_dumps xs = ''['' @ join '', '' (map json_dumps_str xs) @ '']''"

text \<open>
  A \<^verbatim>\<open>Dict[str, str]\<close> in insertion order. \<^verbatim>\<open>d[k] = v\<close> replaces the value of
  a key that is present, in place, and appends a new key at the end.
\<close>

type_synonym environ = "(string \<times> string) list"

fun dict_set :: "environ \<Rightarrow> string \<Rightarrow> string \<Rightarrow> environ" where
  "dict_set [] k v = [(k, v)]"
| "dict_set ((k', v') # d) k v = (if k' = k then (k, v) # d else (k', v') # dict_set d k v)"

text \<open>The values a generated JSON document of this module is made of.\<close>

datatype json = JStr string | JList "json list" | JDict "(string \<times> json) list"

fun json_get :: "json \<Rightarrow> string \<Rightarrow> json option" where
  "json_get (JDict kvs) k = map_of kvs k"
| "json_get _ k = None"

subsection \<open>Module constants and the data model\<close>

definition SCC :: string where
  "SCC = ''/usr/bin/samba-container''"

definition NODES_SUBCMD :: "string list" where
  "NODES_SUBCMD = [SCC, ''ctdb-list-nodes'']"

definition MUTEX_SUBCMD :: "string list" where
  "MUTEX_SUBCMD = [SCC, ''ctdb-rados-mutex'']"

text \<open>\<^verbatim>\<open>Features\<close>: the enum and its \<^verbatim>\<open>value\<close> strings.\<close>

datatype Features = DOMAIN | CLUSTERED

fun Features_value :: "Features \<Rightarrow> string" where
  "Features_value DOMAIN = ''domain''"
| "Features_value CLUSTERED = ''clustered''"

text \<open>\<^verbatim>\<open>Features.valid\<close>: whether \<^verbatim>\<open>Features(value)\<close> finds a member.\<close>

definition Features_valid :: "string \<Rightarrow> bool" where
  "Features_valid v = (v = Features_value DOMAIN \<or> v = Features_value CLUSTERED)"

record ClusterPublicIP =
  address :: string
  destinations :: "string list"

text \<open>
  \<^verbatim>\<open>DaemonIdentity\<close> is declared in \<^verbatim>\<open>cephadmlib.daemon_identity\<close>; this module
  only carries it around and reads its \<^verbatim>\<open>daemon_type\<close>.
\<close>

record DaemonIdentity =
  fsid :: string
  daemon_type :: string
  daemon_id :: string

record Config =
  identity :: DaemonIdentity
  instance_id :: string
  source_config :: string
  domain_member :: bool
  clustered :: bool
  samba_debug_level :: int
  ctdb_log_level :: string
  debug_delay :: int
  join_sources :: "string list"
  user_sources :: "string list"
  custom_dns :: "string list"
  smb_port :: int
  ceph_config_entity :: string
  vhostname :: string
  metrics_image :: string
  metrics_port :: int
  rank :: int
  rank_generation :: int
  cluster_meta_uri :: string
  cluster_lock_uri :: string
  cluster_public_addrs :: "ClusterPublicIP list"

text \<open>\<^verbatim>\<open>Config.config_uris\<close>; \<^verbatim>\<open>user_sources or []\<close> is the list itself.\<close>

definition config_uris :: "Config \<Rightarrow> string list" where
  "config_uris c =
     (let uris = [source_config c];
          uris = uris @ user_sources c;
          uris = (if clustered c then uris @ [''/etc/samba/container/ctdb.json''] else uris)
      in uris)"

subsection \<open>The container role classes\<close>

text \<open>
  The ten concrete classes below \<^verbatim>\<open>ContainerCommon\<close>. An instance holds the
  \<^verbatim>\<open>cfg\<close> and \<^verbatim>\<open>image\<close> attributes its constructor stores; its class decides
  which method bodies apply.
\<close>

datatype ContainerClass =
    SMBDContainer
  | WinbindContainer
  | ConfigInitContainer
  | MustJoinContainer
  | ConfigWatchContainer
  | SMBMetricsContainer
  | CTDBMigrateInitContainer
  | CTDBMustHaveNodeInitContainer
  | CTDBDaemonContainer
  | CTDBNodeMonitorContainer

record Container =
  cls :: ContainerClass
  cfg :: Config
  image_str :: string

text \<open>\<^verbatim>\<open>Cls(cfg, image)\<close>; the \<^verbatim>\<open>image\<close> parameter defaults to the empty string.\<close>

definition new :: "ContainerClass \<Rightarrow> Config \<Rightarrow> string \<Rightarrow> Container" where
  "new k c img = \<lparr>cls = k, cfg = c, image_str = img\<rparr>"

text \<open>\<^verbatim>\<open>name()\<close> of each class.\<close>

fun class_name :: "ContainerClass \<Rightarrow> string" where
  "class_name SMBDContainer = ''smbd''"
| "class_name WinbindContainer = ''winbindd''"
| "class_name ConfigInitContainer = ''config''"
| "class_name MustJoinContainer = ''mustjoin''"
| "class_name ConfigWatchContainer = ''configwatch''"
| "class_name SMBMetricsContainer = ''smbmetrics''"
| "class_name CTDBMigrateInitContainer = ''ctdbMigrate''"
| "class_name CTDBMustHaveNodeInitContainer = ''ctdbMustHaveNode''"
| "class_name CTDBDaemonContainer = ''ctdbd''"
| "class_name CTDBNodeMonitorContainer = ''ctdbNodes''"

definition name :: "Container \<Rightarrow> string" where
  "name ctr = class_name (cls ctr)"

text \<open>
  Whether a class derives from \<^verbatim>\<open>SambaContainerCommon\<close>: every class but
  \<^verbatim>\<open>SMBMetricsContainer\<close>, which derives from \<^verbatim>\<open>ContainerCommon\<close> directly.
\<close>

fun is_samba :: "ContainerClass \<Rightarrow> bool" where
  "is_samba SMBMetricsContainer = False"
| "is_samba _ = True"

text \<open>\<^verbatim>\<open>SambaContainerCommon.envs\<close>.\<close>

definition samba_envs :: "Config \<Rightarrow> environ" where
  "samba_envs c =
     (let environ = [(''SAMBA_CONTAINER_ID'', instance_id c),
                     (''SAMBACC_CONFIG'', json_dumps (config_uris c))];
          environ = dict_set environ ''SAMBACC_CTDB'' ''ctdb-is-experimental'';
          environ = (if ceph_config_entity c \<noteq> []
                     then dict_set environ ''SAMBACC_CEPH_ID'' (''name='' @ ceph_config_entity c)
                     else environ);
          environ = (if rank c \<ge> 0
                     then (let environ = dict_set environ ''RANK'' (str (rank c));
                               environ = dict_set environ ''RANK_GENERATION'' (str (rank c))
                           in dict_set environ ''NODE_NUMBER'' (the (map_of environ ''RANK'')))
                     else environ)
      in environ)"

text \<open>\<^verbatim>\<open>envs()\<close>: the base class returns the empty dict.\<close>

definition envs :: "Container \<Rightarrow> environ" where
  "envs ctr = (if is_samba (cls ctr) then samba_envs (cfg ctr) else [])"

text \<open>\<^verbatim>\<open>envs_list()\<close>: \<^verbatim>\<open>k=v\<close> for each item; the base class returns the empty list.\<close>

definition envs_list :: "Container \<Rightarrow> string list" where
  "envs_list ctr =
     (if is_samba (cls ctr) then map (\<lambda>(k, v). k @ ''='' @ v) (envs ctr) else [])"

text \<open>\<^verbatim>\<open>container_image()\<close>.\<close>

definition container_image :: "Container \<Rightarrow> string" where
  "container_image ctr = image_str ctr"

record ContainerLayout =
  init_containers :: "Container list"
  primary :: Container
  supplemental :: "Container list"

text \<open>
  The body of \<^verbatim>\<open>SMB._layout\<close> below its cache test, as a function of the
  validated \<^verbatim>\<open>Config\<close> that \<^verbatim>\<open>self._cfg\<close> returns.
\<close>

definition build_layout :: "Config \<Rightarrow> ContainerLayout" where
  "build_layout c =
     (let init_ctrs = [];
          ctrs = [];
          init_ctrs = init_ctrs @ [new ConfigInitContainer c ''''];
          ctrs = ctrs @ [new ConfigWatchContainer c ''''];
          init_ctrs = (if domain_member c
                       then init_ctrs @ [new MustJoinContainer c ''''] else init_ctrs);
          ctrs = (if domain_member c
                  then ctrs @ [new WinbindContainer c ''''] else ctrs);
          m_image = strip (metrics_image c);
          m_port = metrics_port c;
          ctrs = (if m_image \<noteq> [] \<and> m_port > 0
                  then ctrs @ [new SMBMetricsContainer c m_image] else ctrs);
          init_ctrs = (if clustered c
                       then init_ctrs @ [new CTDBMigrateInitContainer c '''',
                                         new CTDBMustHaveNodeInitContainer c '''']
                       else init_ctrs);
          ctrs = (if clustered c
                  then ctrs @ [new CTDBDaemonContainer c '''',
                               new CTDBNodeMonitorContainer c '''']
                  else ctrs);
          smbd = new SMBDContainer c ''''
      in \<lparr>init_containers = init_ctrs, primary = smbd, supplemental = ctrs\<rparr>)"

subsection \<open>What the instance reads from its surroundings\<close>

datatype error = Error string | AssertionError | ValueError | TypeError

text \<open>
  The raw configuration \<^verbatim>\<open>context_getters.fetch_configs(ctx)\<close> returns. Each key is
  typed as the \<^verbatim>\<open>Config\<close> field it feeds; \<open>None\<close> is an absent key, for which
  \<^verbatim>\<open>configs.get(key, default)\<close> yields the default. The value of \<^verbatim>\<open>metrics_port\<close>,
  which the code hands to \<^verbatim>\<open>int()\<close>, is any JSON value but a number with a fraction.
  For the other keys, values of other JSON types, and public address items without
  their two keys (assertion failures in \<^verbatim>\<open>ClusterPublicIP.convert\<close>), are outside this
  model.
\<close>

datatype raw_value = PyInt int | PyStr string | PyBool bool | PyNone | PyList | PyDict

record RawPublicIP =
  item_address :: string
  item_destinations :: "string list"

record RawConfigs =
  raw_cluster_id :: "string option"
  raw_config_uri :: "string option"
  raw_join_sources :: "string list option"
  raw_user_sources :: "string list option"
  raw_custom_dns :: "string list option"
  raw_features :: "string list option"
  raw_files :: "(string \<times> string) list option"
  raw_config_auth_entity :: "string option"
  raw_virtual_hostname :: "string option"
  raw_metrics_image :: "string option"
  raw_metrics_port :: "raw_value option"
  raw_cluster_meta_uri :: "string option"
  raw_cluster_lock_uri :: "string option"
  raw_cluster_public_addrs :: "RawPublicIP list option"

text \<open>\<^verbatim>\<open>configs.get(key, default)\<close> on one typed entry.\<close>

definition get :: "'a option \<Rightarrow> 'a \<Rightarrow> 'a" where
  "get entry dflt = (case entry of None \<Rightarrow> dflt | Some v \<Rightarrow> v)"

text \<open>\<^verbatim>\<open>ClusterPublicIP.convert\<close> on a well-formed item.\<close>

definition ClusterPublicIP_convert :: "RawPublicIP \<Rightarrow> ClusterPublicIP" where
  "ClusterPublicIP_convert item =
     \<lparr>address = item_address item, destinations = item_destinations item\<rparr>"

text \<open>
  The host network inventory \<^verbatim>\<open>list_networks(ctx)\<close> returns: for a network name,
  the device names in the order in which iterating the entry yields them.
\<close>

type_synonym networks = "string \<rightharpoonup> string list"

text \<open>
  What the constructor takes from the \<^verbatim>\<open>CephadmContext\<close> through
  \<^verbatim>\<open>context_getters\<close> and \<^verbatim>\<open>host_facts\<close>, one field per getter.
\<close>

record CephadmContext =
  fetch_configs :: RawConfigs
  get_config_and_keyring :: "string option \<times> string option"
  fetch_rank_info :: "(int \<times> int) option"
  list_networks :: networks

text \<open>
  What the interpreter and the host decide: the name \<^verbatim>\<open>socket.getfqdn()\<close> returns,
  the order in which a \<^verbatim>\<open>set\<close> of strings is iterated, given its elements in
  insertion order, and the limit \<^verbatim>\<open>sys.get_int_max_str_digits()\<close> on the digits of a
  string that \<^verbatim>\<open>int()\<close> converts (0 when there is none).
\<close>

record Host =
  getfqdn :: string
  set_iter :: "string list \<Rightarrow> string list"
  int_max_str_digits :: nat

text \<open>
  \<^verbatim>\<open>int(x)\<close> as \<^verbatim>\<open>validate\<close> applies it to the \<^verbatim>\<open>metrics_port\<close> value. On a string:
  whitespace around the literal is dropped (the ASCII blanks and, of the code points
  below 256, U+0085 and U+00A0), one sign may lead, and the rest must be decimal digits
  with single underscores between digits only; anything else is a \<^verbatim>\<open>ValueError\<close>, and
  so is a literal of more digits than the interpreter's limit. A boolean is 0 or 1;
  \<^verbatim>\<open>None\<close>, a list and a dict are a \<^verbatim>\<open>TypeError\<close>.
\<close>

definition int_space :: "char \<Rightarrow> bool" where
  "int_space c = ((of_char c :: nat) \<in> {9, 10, 11, 12, 13, 32, 133, 160})"

definition is_digit :: "char \<Rightarrow> bool" where
  "is_digit c = (48 \<le> (of_char c :: nat) \<and> (of_char c :: nat) \<le> 57)"

fun digits_ok :: "string \<Rightarrow> bool" where
  "digits_ok [] = False"
| "digits_ok [c] = is_digit c"
| "digits_ok (c # d # cs) =
     (is_digit c \<and> (if d = CHR ''_'' then digits_ok cs else digits_ok (d # cs)))"

definition int_of_str :: "Host \<Rightarrow> string \<Rightarrow> error + int" where
  "int_of_str h s =
     (let t = rev (dropWhile int_space (rev (dropWhile int_space s)));
          (sign, u) = (case t of
                         [] \<Rightarrow> (1, [])
                       | c # cs \<Rightarrow> if c = CHR ''-'' then (- 1, cs)
                                  else if c = CHR ''+'' then (1, cs) else (1, t));
          ds = filter (\<lambda>c. c \<noteq> CHR ''_'') u
      in if \<not> digits_ok u then Inl ValueError
         else if int_max_str_digits h > 0 \<and> length ds > int_max_str_digits h
         then Inl ValueError
         else Inr (sign * foldl (\<lambda>acc c. 10 * acc + (int (of_char c) - 48)) 0 ds))"

definition py_int :: "Host \<Rightarrow> raw_value \<Rightarrow> error + int" where
  "py_int h v =
     (case v of
        PyInt n \<Rightarrow> Inr n
      | PyStr s \<Rightarrow> int_of_str h s
      | PyBool b \<Rightarrow> Inr (if b then 1 else 0)
      | PyNone \<Rightarrow> Inl TypeError
      | PyList \<Rightarrow> Inl TypeError
      | PyDict \<Rightarrow> Inl TypeError)"

subsection \<open>The network mapper\<close>

record NetworkMapper =
  mapper_ctx :: CephadmContext
  mapper_networks :: networks

definition NetworkMapper_init :: "CephadmContext \<Rightarrow> NetworkMapper" where
  "NetworkMapper_init ctx = \<lparr>mapper_ctx = ctx, mapper_networks = Map.empty\<rparr>"

definition load :: "NetworkMapper \<Rightarrow> NetworkMapper" where
  "load m = m\<lparr>mapper_networks := list_networks (mapper_ctx m)\<rparr>"

text \<open>
  \<^verbatim>\<open>_NetworkMapper._convert\<close>: the outer loop over the destinations skips a name
  that is not a key of the inventory, the inner loop appends each device.
\<close>

definition convert :: "NetworkMapper \<Rightarrow> ClusterPublicIP \<Rightarrow> ClusterPublicIP" where
  "convert m addr =
     (let devs = fold (\<lambda>net devs.
                   case mapper_networks m net of
                     None \<Rightarrow> devs
                   | Some net_devs \<Rightarrow> fold (\<lambda>dev devs. devs @ [dev]) net_devs devs)
                 (destinations addr) []
      in \<lparr>address = address addr, destinations = devs\<rparr>)"

text \<open>\<^verbatim>\<open>_NetworkMapper.for_sambacc\<close>.\<close>

definition for_sambacc :: "NetworkMapper \<Rightarrow> Config \<Rightarrow> json list" where
  "for_sambacc m c =
     (if cluster_public_addrs c = [] then []
      else map (\<lambda>a. JDict [(''address'', JStr (address a)),
                             (''interfaces'', JList (map JStr (destinations a)))])
             (map (convert m) (cluster_public_addrs c)))"

subsection \<open>The SMB daemon form\<close>

record SMB =
  self_identity :: DaemonIdentity
  self_instance_cfg :: "Config option"
  self_files :: "(string \<times> string) list"
  self_raw_configs :: RawConfigs
  self_config_keyring :: "string option \<times> string option"
  self_cached_layout :: "ContainerLayout option"
  self_rank_info :: "int \<times> int"
  self_smb_port :: int
  self_metrics_port :: int
  self_network_mapper :: NetworkMapper

text \<open>\<^verbatim>\<open>SMB.__init__\<close>; \<^verbatim>\<open>fetch_rank_info(ctx) or (-1, -1)\<close> replaces \<^verbatim>\<open>None\<close> only.\<close>

definition SMB_init :: "CephadmContext \<Rightarrow> DaemonIdentity \<Rightarrow> error + SMB" where
  "SMB_init ctx ident =
     (if daemon_type ident \<noteq> ''smb'' then Inl AssertionError
      else Inr \<lparr>self_identity = ident,
                self_instance_cfg = None,
                self_files = [],
                self_raw_configs = fetch_configs ctx,
                self_config_keyring = get_config_and_keyring ctx,
                self_cached_layout = None,
                self_rank_info = (case fetch_rank_info ctx of None \<Rightarrow> (- 1, - 1) | Some r \<Rightarrow> r),
                self_smb_port = 445,
                self_metrics_port = 9922,
                self_network_mapper = NetworkMapper_init ctx\<rparr>)"

text \<open>
  \<^verbatim>\<open>SMB.validate\<close>. Of the reads at its head only \<^verbatim>\<open>int(...)\<close> can raise, and it
  does so before any test. The set comprehension keeps each invalid feature once; the
  emptiness test is on the set, \<^verbatim>\<open>", ".join\<close> iterates it in the interpreter's order.
\<close>

definition validate :: "Host \<Rightarrow> SMB \<Rightarrow> error + SMB" where
  "validate h smb =
     (case self_instance_cfg smb of
        Some _ \<Rightarrow> Inr smb
      | None \<Rightarrow>
         (let configs = self_raw_configs smb;
              instance_id' = get (raw_cluster_id configs) '''';
              source_config' = get (raw_config_uri configs) '''';
              join_sources' = get (raw_join_sources configs) [];
              user_sources' = get (raw_user_sources configs) [];
              custom_dns' = get (raw_custom_dns configs) [];
              instance_features = get (raw_features configs) [];
              files = get (raw_files configs) [];
              ceph_config_entity' = get (raw_config_auth_entity configs) '''';
              vhostname' = get (raw_virtual_hostname configs) '''';
              metrics_image' = get (raw_metrics_image configs) '''';
              metrics_port_conv = py_int h (get (raw_metrics_port configs) (PyStr ''0''));
              cluster_meta_uri' = get (raw_cluster_meta_uri configs) '''';
              cluster_lock_uri' = get (raw_cluster_lock_uri configs) '''';
              cluster_public_addrs' = get (raw_cluster_public_addrs configs) []
          in case metrics_port_conv of
               Inl e \<Rightarrow> Inl e
             | Inr metrics_port' \<Rightarrow>
             if instance_id' = [] then Inl (Error ''invalid instance (cluster) id'')
             else if source_config' = [] then Inl (Error ''invalid configuration source uri'')
             else
              (let invalid_features = remdups (filter (\<lambda>f. \<not> Features_valid f) instance_features)
               in if invalid_features \<noteq> []
                  then Inl (Error (''invalid instance features: ''
                                   @ join '', '' (set_iter h invalid_features)))
                  else
                   (let vhostname' = (if vhostname' = []
                                      then instance_id' @ ''-'' @ getfqdn h else vhostname');
                        public_addrs = map ClusterPublicIP_convert cluster_public_addrs';
                        mapper = (if public_addrs \<noteq> []
                                  then load (self_network_mapper smb)
                                  else self_network_mapper smb);
                        (rank', rank_gen) = self_rank_info smb
                    in Inr (smb\<lparr>self_instance_cfg := Some
                                  \<lparr>identity = self_identity smb,
                                   instance_id = instance_id',
                                   source_config = source_config',
                                   domain_member = (Features_value DOMAIN \<in> set instance_features),
                                   clustered = (Features_value CLUSTERED \<in> set instance_features),
                                   samba_debug_level = 0,
                                   ctdb_log_level = '''',
                                   debug_delay = 0,
                                   join_sources = join_sources',
                                   user_sources = user_sources',
                                   custom_dns = custom_dns',
                                   smb_port = self_smb_port smb,
                                   ceph_config_entity = ceph_config_entity',
                                   vhostname = vhostname',
                                   metrics_image = metrics_image',
                                   metrics_port = metrics_port',
                                   rank = rank',
                                   rank_generation = rank_gen,
                                   cluster_meta_uri = cluster_meta_uri',
                                   cluster_lock_uri = cluster_lock_uri',
                                   cluster_public_addrs = public_addrs\<rparr>,
                                self_files := files,
                                self_network_mapper := mapper\<rparr>)))))"

text \<open>The property \<^verbatim>\<open>SMB._cfg\<close>: validate, then \<^verbatim>\<open>assert self._instance_cfg\<close>.\<close>

definition SMB_cfg :: "Host \<Rightarrow> SMB \<Rightarrow> error + (Config \<times> SMB)" where
  "SMB_cfg h smb =
     (case validate h smb of
        Inl e \<Rightarrow> Inl e
      | Inr smb' \<Rightarrow>
         (case self_instance_cfg smb' of
            None \<Rightarrow> Inl AssertionError
          | Some c \<Rightarrow> Inr (c, smb')))"

text \<open>\<^verbatim>\<open>SMB._layout\<close>: the cached layout when there is one, else a new one, cached.\<close>

definition layout :: "Host \<Rightarrow> SMB \<Rightarrow> error + (ContainerLayout \<times> SMB)" where
  "layout h smb =
     (case self_cached_layout smb of
        Some l \<Rightarrow> Inr (l, smb)
      | None \<Rightarrow>
         (case SMB_cfg h smb of
            Inl e \<Rightarrow> Inl e
          | Inr (c, smb') \<Rightarrow>
             (let l = build_layout c in Inr (l, smb'\<lparr>self_cached_layout := Some l\<rparr>))))"

text \<open>
  The sub-identity \<^verbatim>\<open>_to_init_container\<close> and \<^verbatim>\<open>_to_sidecar_container\<close> give a
  container: \<^verbatim>\<open>DaemonSubIdentity.from_parent(self.identity, smb_ctr.name())\<close>, where
  \<^verbatim>\<open>from_parent\<close> belongs to \<^verbatim>\<open>cephadmlib.daemon_identity\<close> and is a parameter.
\<close>

definition sub_identity ::
  "(DaemonIdentity \<Rightarrow> string \<Rightarrow> 'sub) \<Rightarrow> SMB \<Rightarrow> Container \<Rightarrow> 'sub" where
  "sub_identity from_parent smb smb_ctr = from_parent (self_identity smb) (name smb_ctr)"

text \<open>\<^verbatim>\<open>EndPoint\<close> of \<^verbatim>\<open>cephadmlib.net_utils\<close>: an address and a port.\<close>

record EndPoint =
  ip :: string
  port :: int

text \<open>
  \<^verbatim>\<open>SMB.customize_container_endpoints\<close>: the list is extended in place, the model
  returns it. The \<^verbatim>\<open>deployment_type\<close> argument is not read.
\<close>

definition customize_container_endpoints :: "SMB \<Rightarrow> EndPoint list \<Rightarrow> 'd \<Rightarrow> EndPoint list" where
  "customize_container_endpoints smb endpoints deployment_type =
     (let endpoints =
            (if \<not> list_ex (\<lambda>ep. port ep = self_smb_port smb) endpoints
             then endpoints @ [\<lparr>ip = ''0.0.0.0'', port = self_smb_port smb\<rparr>]
             else endpoints);
          endpoints =
            (if self_metrics_port smb > 0
             then (if \<not> list_ex (\<lambda>ep. port ep = self_metrics_port smb) endpoints
                   then endpoints @ [\<lparr>ip = ''0.0.0.0'', port = self_metrics_port smb\<rparr>]
                   else endpoints)
             else endpoints)
      in endpoints)"

text \<open>
  The dict \<^verbatim>\<open>stub_config\<close> that \<^verbatim>\<open>SMB._write_ctdb_stub_config\<close> builds and hands to
  \<^verbatim>\<open>json.dump\<close>, as a function of \<^verbatim>\<open>self._network_mapper\<close> and \<^verbatim>\<open>self._cfg\<close>.
\<close>

definition ctdb_stub_config :: "NetworkMapper \<Rightarrow> Config \<Rightarrow> json" where
  "ctdb_stub_config m c =
     (let reclock_cmd = join '' '' (MUTEX_SUBCMD @ [cluster_lock_uri c]);
          nodes_cmd = join '' '' NODES_SUBCMD;
          ctdb = [(''recovery_lock'', JStr (''!'' @ reclock_cmd)),
                  (''cluster_meta_uri'', JStr (cluster_meta_uri c)),
                  (''nodes_cmd'', JStr nodes_cmd),
                  (''public_addresses'', JList (for_sambacc m c))];
          ctdb = (if ctdb_log_level c \<noteq> []
                  then ctdb @ [(''log_level'', JStr (ctdb_log_level c))] else ctdb)
      in JDict [(''samba-container-config'', JStr ''v0''), (''ctdb'', JDict ctdb)])"

subsection \<open>Predicates on the order of a list\<close>

text \<open>\<open>a\<close> occurs in the list and \<open>b\<close> is the element right after it.\<close>

fun immediately_followed_by :: "'a \<Rightarrow> 'a \<Rightarrow> 'a list \<Rightarrow> bool" where
  "immediately_followed_by a b (x # y # zs) =
     ((x = a \<and> y = b) \<or> immediately_followed_by a b (y # zs))"
| "immediately_followed_by a b _ = False"

text \<open>Some occurrence of \<open>a\<close> lies before some occurrence of \<open>b\<close>.\<close>

fun occurs_before :: "'a \<Rightarrow> 'a \<Rightarrow> 'a list \<Rightarrow> bool" where
  "occurs_before a b [] = False"
| "occurs_before a b (x # xs) = ((x = a \<and> b \<in> set xs) \<or> occurs_before a b xs)"

text \<open>The classes of a list of containers, in order.\<close>

definition roles :: "Container list \<Rightarrow> ContainerClass list" where
  "roles ctrs = map cls ctrs"

text \<open>Looking a value up along a path of keys in a generated document.\<close>

fun json_path :: "json \<Rightarrow> string list \<Rightarrow> json option" where
  "json_path j [] = Some j"
| "json_path j (k # ks) = (case json_get j k of None \<Rightarrow> None | Some j' \<Rightarrow> json_path j' ks)"

subsection \<open>Example inputs\<close>

definition example_identity :: DaemonIdentity where
  "example_identity = \<lparr>fsid = ''f0'', daemon_type = ''smb'', daemon_id = ''tank''\<rparr>"

definition example_cfg :: Config where
  "example_cfg =
     \<lparr>identity = example_identity,
      instance_id = ''tank'',
      source_config = ''rados://.smb/tank/config.json'',
      domain_member = False,
      clustered = False,
      samba_debug_level = 0,
      ctdb_log_level = '''',
      debug_delay = 0,
      join_sources = [],
      user_sources = [''rados://.smb/tank/users.json''],
      custom_dns = [],
      smb_port = 445,
      ceph_config_entity = ''client.smb'',
      vhostname = ''tank-node1'',
      metrics_image = '''',
      metrics_port = 9922,
      rank = 2,
      rank_generation = 7,
      cluster_meta_uri = '''',
      cluster_lock_uri = ''rados://pool/obj'',
      cluster_public_addrs = []\<rparr>"

definition example_raw :: RawConfigs where
  "example_raw =
     \<lparr>raw_cluster_id = Some ''tank'',
      raw_config_uri = Some ''rados://.smb/tank/config.json'',
      raw_join_sources = None,
      raw_user_sources = Some [''rados://.smb/tank/users.json''],
      raw_custom_dns = None,
      raw_features = Some [''domain'', ''clustered''],
      raw_files = None,
      raw_config_auth_entity = Some ''client.smb'',
      raw_virtual_hostname = None,
      raw_metrics_image = None,
      raw_metrics_port = Some (PyInt 9922),
      raw_cluster_meta_uri = Some ''rados://pool/meta'',
      raw_cluster_lock_uri = Some ''rados://pool/obj'',
      raw_cluster_public_addrs = None\<rparr>"

definition example_networks :: networks where
  "example_networks = [''netA'' \<mapsto> [''eth0''], ''netB'' \<mapsto> [''eth1'', ''eth2'']]"

definition example_ctx :: CephadmContext where
  "example_ctx =
     \<lparr>fetch_configs = example_raw,
      get_config_and_keyring = (None, None),
      fetch_rank_info = Some (2, 7),
      list_networks = example_networks\<rparr>"

definition example_host :: Host where
  "example_host =
     \<lparr>getfqdn = ''node1.example.com'', set_iter = rev, int_max_str_digits = 4300\<rparr>"

definition example_smb :: SMB where
  "example_smb =
     \<lparr>self_identity = example_identity,
      self_instance_cfg = None,
      self_files = [],
      self_raw_configs = example_raw,
      self_config_keyring = (None, None),
      self_cached_layout = None,
      self_rank_info = (2, 7),
      self_smb_port = 445,
      self_metrics_port = 9922,
      self_network_mapper = NetworkMapper_init example_ctx\<rparr>"

section \<open>Properties\<close>

subsection \<open>Auxiliary facts\<close>

lemma example_smb_constructed: "SMB_init example_ctx example_identity = Inr example_smb"
  by (simp add: SMB_init_def example_smb_def example_ctx_def example_identity_def)

lemma fold_snoc: "fold (\<lambda>x acc. acc @ [x]) xs acc = acc @ xs"
  by (induction xs arbitrary: acc) auto

lemma fold_devs:
  "fold (\<lambda>net devs. case nw net of
                       None \<Rightarrow> devs
                     | Some ds \<Rightarrow> fold (\<lambda>dev devs. devs @ [dev]) ds devs) nets acc
   = acc @ concat (map (\<lambda>net. case nw net of None \<Rightarrow> [] | Some ds \<Rightarrow> ds) nets)"
  by (induction nets arbitrary: acc) (auto simp: fold_snoc split: option.splits)

lemma concat_all_None:
  "\<forall>net\<in>set nets. nw net = None \<Longrightarrow>
   concat (map (\<lambda>net. case nw net of None \<Rightarrow> [] | Some ds \<Rightarrow> ds) nets) = []"
  by (induction nets) auto

lemma map_of_dict_set: "map_of (dict_set d k v) = (map_of d)(k \<mapsto> v)"
  by (induction d k v rule: dict_set.induct) auto

lemma samba_envs_config:
  "map_of (samba_envs c) ''SAMBACC_CONFIG'' = Some (json_dumps (config_uris c))"
  by (simp add: samba_envs_def Let_def map_of_dict_set)

lemma samba_envs_rank:
  "rank c \<ge> 0 \<Longrightarrow>
   map_of (samba_envs c) ''RANK_GENERATION'' = Some (str (rank c)) \<and>
   map_of (samba_envs c) ''RANK'' = Some (str (rank c)) \<and>
   map_of (samba_envs c) ''NODE_NUMBER'' = Some (str (rank c))"
  by (simp add: samba_envs_def Let_def map_of_dict_set)

lemma samba_envs_rank_generation: "samba_envs (c\<lparr>rank_generation := g\<rparr>) = samba_envs c"
  by (simp add: samba_envs_def config_uris_def Let_def)

lemma map_of_in_envs_list:
  "map_of d k = Some v \<Longrightarrow> (k @ ''='' @ v) \<in> set (map (\<lambda>(k, v). k @ ''='' @ v) d)"
  by (induction d) (auto split: if_splits)

lemma layout_cfg:
  "ctr \<in> set (init_containers (build_layout c) @ [primary (build_layout c)]
               @ supplemental (build_layout c)) \<Longrightarrow> cfg ctr = c"
  by (auto simp: build_layout_def new_def Let_def split: if_splits)

lemma strip_blank: "\<forall>ch\<in>set s. isspace ch \<Longrightarrow> strip s = []"
  by (induction s) (auto simp: strip_def)

lemma join_names: "t \<in> set ts \<Longrightarrow> sublist t (join sep ts)"
proof (induction sep ts rule: join.induct)
  case (3 sep x y ys)
  show ?case
  proof (cases "t = x")
    case True
    then show ?thesis by simp
  next
    case False
    with 3 have "sublist t (join sep (y # ys))" by simp
    then obtain ps ss where "join sep (y # ys) = ps @ t @ ss"
      by (auto simp: sublist_def)
    then have "join sep (x # y # ys) = (x @ sep @ ps) @ t @ ss" by simp
    then show ?thesis unfolding sublist_def by blast
  qed
qed auto

lemma sublist_after: "sublist t ys \<Longrightarrow> sublist t (ps @ ys)"
  by (metis append.assoc sublist_def)

text \<open>
  The stateful \<^verbatim>\<open>_layout\<close> and the function of the configuration: on an instance
  without a cached layout whose validation succeeds, \<open>layout\<close> returns
  \<open>build_layout\<close> of the validated configuration and caches it; a second call returns
  the cached layout and leaves the instance as it is.
\<close>

lemma validate_sets_cfg: "validate h smb = Inr smb' \<Longrightarrow> \<exists>c. self_instance_cfg smb' = Some c"
  by (auto simp: validate_def Let_def case_prod_beta split: option.splits sum.splits if_splits)

lemma layout_fresh:
  "self_cached_layout smb = None \<Longrightarrow> validate h smb = Inr smb' \<Longrightarrow>
   \<exists>c. self_instance_cfg smb' = Some c \<and>
       layout h smb = Inr (build_layout c, smb'\<lparr>self_cached_layout := Some (build_layout c)\<rparr>)"
  using validate_sets_cfg[of h smb smb'] by (auto simp: layout_def SMB_cfg_def Let_def)

lemma layout_cached: "layout h smb = Inr (l, smb') \<Longrightarrow> layout h smb' = Inr (l, smb')"
  by (auto simp: layout_def SMB_cfg_def Let_def split: option.splits sum.splits)

text \<open>Sample values of \<open>str\<close>, and the layout of the example instance end to end.\<close>

lemma str_examples: "str 0 = ''0'' \<and> str 9922 = ''9922'' \<and> str (- 1) = ''-1''"
  by (simp add: str_def str_nat.simps digit_def)

lemma layout_example:
  "(case layout example_host example_smb of
      Inl e \<Rightarrow> False
    | Inr (l, smb') \<Rightarrow>
        roles (init_containers l)
          = [ConfigInitContainer, MustJoinContainer,
             CTDBMigrateInitContainer, CTDBMustHaveNodeInitContainer]
      \<and> cls (primary l) = SMBDContainer
      \<and> roles (supplemental l)
          = [ConfigWatchContainer, WinbindContainer, CTDBDaemonContainer, CTDBNodeMonitorContainer]
      \<and> self_cached_layout smb' = Some l
      \<and> map_option vhostname (self_instance_cfg smb') = Some ''tank-node1.example.com'')"
  by (simp add: layout_def SMB_cfg_def validate_def example_smb_def example_raw_def get_def
        example_host_def Features_valid_def Let_def build_layout_def roles_def new_def strip_def
        py_int_def)

subsection \<open>The layout\<close>

text \<open>
  C1. For every configuration the layout is exactly: init containers config-init, then
  must-join when \<open>domain_member\<close>, then ctdb-migrate and ctdb-must-have-node when
  \<open>clustered\<close>; the primary is smbd; the supplemental containers are configwatch, then
  winbindd when \<open>domain_member\<close>, then smbmetrics when a metrics image is configured
  (the stripped image string is not empty) and \<open>metrics_port > 0\<close>, then ctdbd and
  ctdb-node-monitor when \<open>clustered\<close>, each list in this order.
\<close>

theorem layout_composition:
  "roles (init_containers (build_layout c)) =
       [ConfigInitContainer]
       @ (if domain_member c then [MustJoinContainer] else [])
       @ (if clustered c then [CTDBMigrateInitContainer, CTDBMustHaveNodeInitContainer] else [])
   \<and> cls (primary (build_layout c)) = SMBDContainer
   \<and> roles (supplemental (build_layout c)) =
       [ConfigWatchContainer]
       @ (if domain_member c then [WinbindContainer] else [])
       @ (if strip (metrics_image c) \<noteq> [] \<and> metrics_port c > 0 then [SMBMetricsContainer] else [])
       @ (if clustered c then [CTDBDaemonContainer, CTDBNodeMonitorContainer] else [])"
  by (simp add: build_layout_def roles_def new_def Let_def)

theorem layout_composition_witness:
  "roles (init_containers (build_layout
      (example_cfg\<lparr>domain_member := True, clustered := True, metrics_image := ''img:1''\<rparr>)))
     = [ConfigInitContainer, MustJoinContainer,
        CTDBMigrateInitContainer, CTDBMustHaveNodeInitContainer]
   \<and> roles (supplemental (build_layout
      (example_cfg\<lparr>domain_member := True, clustered := True, metrics_image := ''img:1''\<rparr>)))
     = [ConfigWatchContainer, WinbindContainer, SMBMetricsContainer,
        CTDBDaemonContainer, CTDBNodeMonitorContainer]
   \<and> roles (init_containers (build_layout example_cfg)) = [ConfigInitContainer]
   \<and> roles (supplemental (build_layout example_cfg)) = [ConfigWatchContainer]"
  using layout_composition
          [of "example_cfg\<lparr>domain_member := True, clustered := True, metrics_image := ''img:1''\<rparr>"]
        layout_composition [of example_cfg]
  by (simp add: example_cfg_def strip_def isspace_def)

text \<open>
  The claim that with \<open>domain_member\<close> the supplemental list has winbindd before
  configwatch fails: configwatch is appended first, so winbindd never precedes it.
\<close>

theorem winbindd_before_configwatch_counterexample:
  "domain_member (example_cfg\<lparr>domain_member := True\<rparr>)
   \<and> \<not> occurs_before WinbindContainer ConfigWatchContainer
         (roles (supplemental (build_layout (example_cfg\<lparr>domain_member := True\<rparr>))))
   \<and> roles (supplemental (build_layout (example_cfg\<lparr>domain_member := True\<rparr>)))
       = [ConfigWatchContainer, WinbindContainer]"
  by (simp add: example_cfg_def build_layout_def roles_def new_def strip_def Let_def)

text \<open>
  C3, amended. For every configuration with \<open>domain_member\<close>, whatever the other
  flags, the init list has must-join immediately after config-init, and the supplemental
  list has winbindd immediately after configwatch, never before it.
\<close>

theorem domain_member_order:
  "domain_member c \<Longrightarrow>
     immediately_followed_by ConfigInitContainer MustJoinContainer
       (roles (init_containers (build_layout c)))
   \<and> immediately_followed_by ConfigWatchContainer WinbindContainer
       (roles (supplemental (build_layout c)))
   \<and> \<not> occurs_before WinbindContainer ConfigWatchContainer
       (roles (supplemental (build_layout c)))"
  by (simp add: build_layout_def roles_def new_def Let_def)

theorem domain_member_order_witness:
  "domain_member (example_cfg\<lparr>domain_member := True, clustered := True\<rparr>)
   \<and> immediately_followed_by ConfigInitContainer MustJoinContainer
       (roles (init_containers (build_layout (example_cfg\<lparr>domain_member := True, clustered := True\<rparr>))))
   \<and> immediately_followed_by ConfigWatchContainer WinbindContainer
       (roles (supplemental (build_layout (example_cfg\<lparr>domain_member := True, clustered := True\<rparr>))))"
  using domain_member_order [of "example_cfg\<lparr>domain_member := True, clustered := True\<rparr>"]
  by (simp add: example_cfg_def)

text \<open>
  C9. For every configuration whose \<open>metrics_image\<close> consists of whitespace characters
  only (the empty string and \<open>'' ''\<close> included), the layout has no smbmetrics container,
  whatever \<open>metrics_port\<close> is: the image string is stripped before it is tested.
\<close>

theorem blank_metrics_image_no_sidecar:
  "\<forall>ch\<in>set (metrics_image c). isspace ch \<Longrightarrow>
     strip (metrics_image c) = []
   \<and> SMBMetricsContainer \<notin> set (roles (init_containers (build_layout c)
                                          @ [primary (build_layout c)]
                                          @ supplemental (build_layout c)))"
  by (simp add: build_layout_def roles_def new_def strip_blank Let_def)

theorem blank_metrics_image_no_sidecar_witness:
  "list_all isspace (metrics_image (example_cfg\<lparr>metrics_image := '' ''\<rparr>))
   \<and> metrics_image (example_cfg\<lparr>metrics_image := '' ''\<rparr>) \<noteq> []
   \<and> metrics_port (example_cfg\<lparr>metrics_image := '' ''\<rparr>) > 0
   \<and> SMBMetricsContainer
       \<notin> set (roles (supplemental (build_layout (example_cfg\<lparr>metrics_image := '' ''\<rparr>))))"
  using blank_metrics_image_no_sidecar [of "example_cfg\<lparr>metrics_image := '' ''\<rparr>"]
  by (simp add: example_cfg_def isspace_def roles_def)

subsection \<open>Role names and environments\<close>

text \<open>
  C10. The role-name strings from which each container's sub-identity is derived are
  \<open>config\<close>, \<open>mustjoin\<close>, \<open>ctdbMigrate\<close>, \<open>ctdbMustHaveNode\<close>, \<open>ctdbd\<close>, \<open>ctdbNodes\<close>,
  \<open>configwatch\<close>, \<open>smbd\<close>, \<open>winbindd\<close> and \<open>smbmetrics\<close>: the sub-identity of a
  config-init container is made from \<open>config\<close>, that of a ctdb-node-monitor container
  from \<open>ctdbNodes\<close>, not from the hyphenated labels.
\<close>

theorem role_names:
  "class_name ConfigInitContainer = ''config''
   \<and> class_name MustJoinContainer = ''mustjoin''
   \<and> class_name CTDBMigrateInitContainer = ''ctdbMigrate''
   \<and> class_name CTDBMustHaveNodeInitContainer = ''ctdbMustHaveNode''
   \<and> class_name CTDBDaemonContainer = ''ctdbd''
   \<and> class_name CTDBNodeMonitorContainer = ''ctdbNodes''
   \<and> class_name ConfigWatchContainer = ''configwatch''
   \<and> class_name SMBDContainer = ''smbd''
   \<and> class_name WinbindContainer = ''winbindd''
   \<and> class_name SMBMetricsContainer = ''smbmetrics''
   \<and> sub_identity from_parent smb ctr = from_parent (self_identity smb) (class_name (cls ctr))
   \<and> sub_identity from_parent smb (new ConfigInitContainer c img)
       = from_parent (self_identity smb) ''config''
   \<and> sub_identity from_parent smb (new CTDBNodeMonitorContainer c img)
       = from_parent (self_identity smb) ''ctdbNodes''"
  by (simp add: sub_identity_def name_def new_def)

theorem role_names_witness:
  "map (\<lambda>ctr. sub_identity Pair example_smb ctr)
       (init_containers (build_layout (example_cfg\<lparr>clustered := True\<rparr>)))
     = [(example_identity, ''config''), (example_identity, ''ctdbMigrate''),
        (example_identity, ''ctdbMustHaveNode'')]
   \<and> map name (supplemental (build_layout (example_cfg\<lparr>clustered := True\<rparr>)))
     = [''configwatch'', ''ctdbd'', ''ctdbNodes'']"
  using role_names [of Pair example_smb]
  by (simp add: build_layout_def Let_def example_cfg_def example_smb_def name_def new_def strip_def)

text \<open>
  C6. For every configuration, \<open>config_uris\<close> is the list of \<open>source_config\<close>, then
  \<open>user_sources\<close>, then \<open>/etc/samba/container/ctdb.json\<close> when clustered; and this list,
  JSON-encoded, is the value of \<open>SAMBACC_CONFIG\<close> in the environment of every
  containerized role of the layout. The containerized roles are the samba-container
  roles, whose environment \<^verbatim>\<open>SambaContainerCommon.envs\<close> builds: every role of the layout
  but smbmetrics, which has no environment of its own.
\<close>

theorem config_uris_in_samba_envs:
  "config_uris c = [source_config c] @ user_sources c
                   @ (if clustered c then [''/etc/samba/container/ctdb.json''] else [])
   \<and> (\<forall>ctr\<in>set (init_containers (build_layout c) @ [primary (build_layout c)]
                  @ supplemental (build_layout c)).
         (cls ctr \<noteq> SMBMetricsContainer \<longrightarrow>
            map_of (envs ctr) ''SAMBACC_CONFIG'' = Some (json_dumps (config_uris c))
          \<and> (''SAMBACC_CONFIG='' @ json_dumps (config_uris c)) \<in> set (envs_list ctr))
       \<and> (cls ctr = SMBMetricsContainer \<longrightarrow> envs ctr = [] \<and> envs_list ctr = []))"
proof (intro conjI ballI impI)
  show "config_uris c = [source_config c] @ user_sources c
                   @ (if clustered c then [''/etc/samba/container/ctdb.json''] else [])"
    by (simp add: config_uris_def)
next
  fix ctr
  assume mem: "ctr \<in> set (init_containers (build_layout c) @ [primary (build_layout c)]
                          @ supplemental (build_layout c))"
    and role: "cls ctr \<noteq> SMBMetricsContainer"
  from role have samba: "is_samba (cls ctr)" by (cases "cls ctr") simp_all
  from mem have "cfg ctr = c" by (rule layout_cfg)
  with samba show m: "map_of (envs ctr) ''SAMBACC_CONFIG'' = Some (json_dumps (config_uris c))"
    by (simp add: envs_def samba_envs_config)
  from map_of_in_envs_list [OF m] samba
  show "(''SAMBACC_CONFIG='' @ json_dumps (config_uris c)) \<in> set (envs_list ctr)"
    by (simp add: envs_list_def)
next
  fix ctr :: Container
  assume other: "cls ctr = SMBMetricsContainer"
  then show "envs ctr = []" by (simp add: envs_def)
  from other show "envs_list ctr = []" by (simp add: envs_list_def)
qed

theorem config_uris_in_samba_envs_witness:
  \<open>map_of (envs (primary (build_layout (example_cfg\<lparr>clustered := True\<rparr>)))) ''SAMBACC_CONFIG''
     = Some ''["rados://.smb/tank/config.json", "rados://.smb/tank/users.json", "/etc/samba/container/ctdb.json"]''
   \<and> cls (primary (build_layout (example_cfg\<lparr>clustered := True\<rparr>))) \<noteq> SMBMetricsContainer\<close>
  using config_uris_in_samba_envs [of "example_cfg\<lparr>clustered := True\<rparr>"]
  by (simp add: build_layout_def new_def Let_def example_cfg_def
        json_dumps_def json_dumps_str_def json_escape_def)

text \<open>
  C8. For every configuration with \<open>rank \<ge> 0\<close>, the environment of every
  samba-container role sets \<open>RANK_GENERATION\<close> to the decimal string of \<open>rank\<close>, the
  value of \<open>RANK\<close> and of \<open>NODE_NUMBER\<close>; and the field \<open>rank_generation\<close> has no
  influence on the environment of any role, whatever the rank.
\<close>

theorem rank_generation_is_rank:
  "(is_samba (cls ctr) \<and> rank (cfg ctr) \<ge> 0 \<longrightarrow>
        map_of (envs ctr) ''RANK_GENERATION'' = Some (str (rank (cfg ctr)))
      \<and> map_of (envs ctr) ''RANK'' = Some (str (rank (cfg ctr)))
      \<and> map_of (envs ctr) ''NODE_NUMBER'' = Some (str (rank (cfg ctr))))
   \<and> envs (ctr\<lparr>cfg := (cfg ctr)\<lparr>rank_generation := g\<rparr>\<rparr>) = envs ctr
   \<and> envs_list (ctr\<lparr>cfg := (cfg ctr)\<lparr>rank_generation := g\<rparr>\<rparr>) = envs_list ctr"
  by (simp add: envs_def envs_list_def samba_envs_rank samba_envs_rank_generation)

theorem rank_generation_is_rank_witness:
  "rank example_cfg = 2 \<and> rank_generation example_cfg = 7
   \<and> map_of (envs (new SMBDContainer example_cfg [])) ''RANK_GENERATION'' = Some ''2''
   \<and> map_of (envs (new SMBDContainer example_cfg [])) ''NODE_NUMBER'' = Some ''2''
   \<and> envs (new SMBDContainer (example_cfg\<lparr>rank_generation := 3\<rparr>) [])
       = envs (new SMBDContainer example_cfg [])"
  using rank_generation_is_rank [of "new SMBDContainer example_cfg []" 3]
  by (simp add: new_def example_cfg_def str_def str_nat.simps digit_def)

subsection \<open>Validation\<close>

text \<open>
  Where validation stops before it looks at the features: a \<^verbatim>\<open>metrics_port\<close> value that
  \<^verbatim>\<open>int()\<close> refuses raises that error, then an empty instance id and an empty
  source-config locator raise their own errors, in this order.
\<close>

lemma validate_port_error:
  "self_instance_cfg smb = None \<Longrightarrow>
   py_int h (get (raw_metrics_port (self_raw_configs smb)) (PyStr ''0'')) = Inl e \<Longrightarrow>
   validate h smb = Inl e"
  by (simp add: validate_def Let_def)

lemma validate_id_error:
  "self_instance_cfg smb = None \<Longrightarrow>
   py_int h (get (raw_metrics_port (self_raw_configs smb)) (PyStr ''0'')) = Inr p \<Longrightarrow>
   get (raw_cluster_id (self_raw_configs smb)) '''' = [] \<Longrightarrow>
   validate h smb = Inl (Error ''invalid instance (cluster) id'')"
  by (simp add: validate_def Let_def)

lemma validate_locator_error:
  "self_instance_cfg smb = None \<Longrightarrow>
   py_int h (get (raw_metrics_port (self_raw_configs smb)) (PyStr ''0'')) = Inr p \<Longrightarrow>
   get (raw_cluster_id (self_raw_configs smb)) '''' \<noteq> [] \<Longrightarrow>
   get (raw_config_uri (self_raw_configs smb)) '''' = [] \<Longrightarrow>
   validate h smb = Inl (Error ''invalid configuration source uri'')"
  by (simp add: validate_def Let_def)

lemma py_int_examples:
  "py_int example_host (PyStr ''0'') = Inr 0
   \<and> py_int example_host (PyStr '' +9_922 '') = Inr 9922
   \<and> py_int example_host (PyStr ''-445'') = Inr (- 445)
   \<and> py_int example_host (PyStr ''abc'') = Inl ValueError
   \<and> py_int example_host (PyStr ''1__0'') = Inl ValueError
   \<and> py_int example_host (PyStr '''') = Inl ValueError
   \<and> py_int example_host PyNone = Inl TypeError
   \<and> py_int example_host (PyBool True) = Inr 1"
  by (simp add: py_int_def int_of_str_def int_space_def is_digit_def example_host_def)

text \<open>
  The claim as stated fails in two ways. Without an instance id the error is the one for
  the id, whatever the features are, and does not name the unrecognized tag. And with a
  \<^verbatim>\<open>metrics_port\<close> that is no integer literal the conversion raises before every test:
  the error names no tag, and validation does not succeed for valid features, a
  non-empty instance id and a non-empty locator either.
\<close>

theorem validate_error_names_tags_counterexample:
  "validate example_host
     (example_smb\<lparr>self_raw_configs :=
        example_raw\<lparr>raw_cluster_id := None, raw_features := Some [''bogus'']\<rparr>\<rparr>)
     = Inl (Error ''invalid instance (cluster) id'')
   \<and> \<not> sublist ''bogus'' ''invalid instance (cluster) id''
   \<and> validate example_host
     (example_smb\<lparr>self_raw_configs :=
        example_raw\<lparr>raw_metrics_port := Some (PyStr ''abc''), raw_features := Some [''bogus'']\<rparr>\<rparr>)
     = Inl ValueError
   \<and> validate example_host
     (example_smb\<lparr>self_raw_configs := example_raw\<lparr>raw_metrics_port := Some (PyStr ''abc'')\<rparr>\<rparr>)
     = Inl ValueError
   \<and> raw_features example_raw = Some [''domain'', ''clustered'']
   \<and> raw_cluster_id example_raw = Some ''tank''
   \<and> raw_config_uri example_raw = Some ''rados://.smb/tank/config.json''"
  by (simp add: validate_def example_smb_def example_raw_def get_def sublist_Cons_right
        py_int_def int_of_str_def int_space_def is_digit_def example_host_def)

text \<open>
  C4, amended. On an instance that is not validated yet, validation fails for every raw
  configuration whose feature list has a tag other than \<open>domain\<close> and \<open>clustered\<close>. When
  moreover \<^verbatim>\<open>int()\<close> converts the \<^verbatim>\<open>metrics_port\<close> value and the instance id and the
  source-config locator are not empty, the failure is the single \<open>Error\<close> whose message is
  \<open>invalid instance features: \<close> followed by the unrecognized tags, each once, joined by
  a comma and a space, so that it names every unrecognized tag and not just the first,
  whatever the order in which the interpreter iterates the set of them. When the feature
  list is drawn from \<open>domain\<close> and \<open>clustered\<close> only, with a \<^verbatim>\<open>metrics_port\<close> value that
  \<^verbatim>\<open>int()\<close> converts and a non-empty instance id and source-config locator, validation
  succeeds and stores a configuration with the two flags set accordingly.
\<close>

theorem validate_features:
  assumes fresh: "self_instance_cfg smb = None"
    and feats: "get (raw_features (self_raw_configs smb)) [] = features"
    and inst: "get (raw_cluster_id (self_raw_configs smb)) '''' = instance"
    and src: "get (raw_config_uri (self_raw_configs smb)) '''' = source"
    and port: "py_int h (get (raw_metrics_port (self_raw_configs smb)) (PyStr ''0'')) = converted"
  shows "((\<exists>f\<in>set features. f \<noteq> ''domain'' \<and> f \<noteq> ''clustered'')
          \<longrightarrow> (\<exists>e. validate h smb = Inl e))
    \<and> ((\<exists>p. converted = Inr p) \<and> instance \<noteq> [] \<and> source \<noteq> []
         \<and> (\<forall>xs. set (set_iter h xs) = set xs)
         \<and> (\<exists>f\<in>set features. f \<noteq> ''domain'' \<and> f \<noteq> ''clustered'')
        \<longrightarrow> (\<exists>tags. set tags = {f \<in> set features. f \<noteq> ''domain'' \<and> f \<noteq> ''clustered''}
                \<and> validate h smb
                    = Inl (Error (''invalid instance features: '' @ join '', '' tags))
                \<and> (\<forall>f\<in>set features. f \<noteq> ''domain'' \<and> f \<noteq> ''clustered''
                      \<longrightarrow> sublist f (''invalid instance features: '' @ join '', '' tags))))
    \<and> ((\<exists>p. converted = Inr p) \<and> instance \<noteq> [] \<and> source \<noteq> []
         \<and> (\<forall>f\<in>set features. f = ''domain'' \<or> f = ''clustered'')
        \<longrightarrow> (\<exists>smb' c. validate h smb = Inr smb' \<and> self_instance_cfg smb' = Some c
                \<and> domain_member c = (''domain'' \<in> set features)
                \<and> clustered c = (''clustered'' \<in> set features)))"
proof (intro conjI impI)
  let ?bad = "filter (\<lambda>f. \<not> Features_valid f) features"
  have bad_set: "set (remdups ?bad) = {f \<in> set features. f \<noteq> ''domain'' \<and> f \<noteq> ''clustered''}"
    by (auto simp: Features_valid_def)
  {
    assume "\<exists>f\<in>set features. f \<noteq> ''domain'' \<and> f \<noteq> ''clustered''"
    then have ne: "remdups ?bad \<noteq> []"
      by (auto simp: Features_valid_def filter_empty_conv)
    show "\<exists>e. validate h smb = Inl e"
    proof (cases converted)
      case (Inl e)
      with port fresh have "validate h smb = Inl e" by (simp add: validate_port_error)
      then show ?thesis by blast
    next
      case (Inr p)
      with port fresh feats ne show ?thesis by (simp add: validate_def Let_def)
    qed
  }
  {
    assume a: "(\<exists>p. converted = Inr p) \<and> instance \<noteq> [] \<and> source \<noteq> []
         \<and> (\<forall>xs. set (set_iter h xs) = set xs)
         \<and> (\<exists>f\<in>set features. f \<noteq> ''domain'' \<and> f \<noteq> ''clustered'')"
    then obtain p where p: "converted = Inr p" by blast
    from a have ne: "remdups ?bad \<noteq> []"
      by (auto simp: Features_valid_def filter_empty_conv)
    let ?tags = "set_iter h (remdups ?bad)"
    let ?msg = "''invalid instance features: '' @ join '', '' ?tags"
    from a bad_set
    have tags: "set ?tags = {f \<in> set features. f \<noteq> ''domain'' \<and> f \<noteq> ''clustered''}"
      by simp
    have v: "validate h smb = Inl (Error ?msg)"
      using fresh feats inst src port p a ne by (simp add: validate_def Let_def)
    have names: "sublist f ?msg"
      if "f \<in> set features" "f \<noteq> ''domain'' \<and> f \<noteq> ''clustered''" for f
    proof -
      from that tags have "f \<in> set ?tags" by simp
      then show ?thesis by (intro sublist_after join_names)
    qed
    from tags v names
    show "\<exists>tags. set tags = {f \<in> set features. f \<noteq> ''domain'' \<and> f \<noteq> ''clustered''}
                \<and> validate h smb
                    = Inl (Error (''invalid instance features: '' @ join '', '' tags))
                \<and> (\<forall>f\<in>set features. f \<noteq> ''domain'' \<and> f \<noteq> ''clustered''
                      \<longrightarrow> sublist f (''invalid instance features: '' @ join '', '' tags))"
      by blast
  }
  {
    assume a: "(\<exists>p. converted = Inr p) \<and> instance \<noteq> [] \<and> source \<noteq> []
         \<and> (\<forall>f\<in>set features. f = ''domain'' \<or> f = ''clustered'')"
    then obtain p where p: "converted = Inr p" by blast
    from a have e: "remdups ?bad = []"
      by (auto simp: Features_valid_def filter_empty_conv)
    show "\<exists>smb' c. validate h smb = Inr smb' \<and> self_instance_cfg smb' = Some c
                \<and> domain_member c = (''domain'' \<in> set features)
                \<and> clustered c = (''clustered'' \<in> set features)"
      using fresh feats inst src port p a e
      by (simp add: validate_def Let_def case_prod_beta)
  }
qed

theorem validate_features_witness:
  "(\<exists>msg. validate example_host
            (example_smb\<lparr>self_raw_configs :=
               example_raw\<lparr>raw_features := Some [''bogus'', ''domain'', ''nope'', ''bogus'']\<rparr>\<rparr>)
            = Inl (Error msg)
          \<and> sublist ''bogus'' msg \<and> sublist ''nope'' msg)
   \<and> (\<exists>smb' c. validate example_host example_smb = Inr smb'
          \<and> self_instance_cfg smb' = Some c \<and> domain_member c \<and> clustered c)"
proof -
  let ?bad = "example_smb\<lparr>self_raw_configs :=
                example_raw\<lparr>raw_features := Some [''bogus'', ''domain'', ''nope'', ''bogus'']\<rparr>\<rparr>"
  have 1: "self_instance_cfg ?bad = None" "self_instance_cfg example_smb = None"
    by (simp_all add: example_smb_def)
  have 2: "get (raw_features (self_raw_configs ?bad)) [] = [''bogus'', ''domain'', ''nope'', ''bogus'']"
    "get (raw_features (self_raw_configs example_smb)) [] = [''domain'', ''clustered'']"
    by (simp_all add: example_smb_def example_raw_def get_def)
  have 3: "get (raw_cluster_id (self_raw_configs ?bad)) [] = ''tank''"
    "get (raw_cluster_id (self_raw_configs example_smb)) [] = ''tank''"
    by (simp_all add: example_smb_def example_raw_def get_def)
  have 4: "get (raw_config_uri (self_raw_configs ?bad)) [] = ''rados://.smb/tank/config.json''"
    "get (raw_config_uri (self_raw_configs example_smb)) [] = ''rados://.smb/tank/config.json''"
    by (simp_all add: example_smb_def example_raw_def get_def)
  have 5: "py_int example_host (get (raw_metrics_port (self_raw_configs ?bad)) (PyStr ''0''))
             = Inr 9922"
    "py_int example_host (get (raw_metrics_port (self_raw_configs example_smb)) (PyStr ''0''))
             = Inr 9922"
    by (simp_all add: example_smb_def example_raw_def get_def py_int_def)
  have 6: "\<forall>xs. set (set_iter example_host xs) = set xs"
    by (simp add: example_host_def)
  from validate_features [OF 1(1) 2(1) 3(1) 4(1) 5(1)] 6
  have bad: "\<exists>msg. validate example_host ?bad = Inl (Error msg)
          \<and> sublist ''bogus'' msg \<and> sublist ''nope'' msg"
    by simp blast
  from validate_features [OF 1(2) 2(2) 3(2) 4(2) 5(2)]
  have good: "\<exists>smb' c. validate example_host example_smb = Inr smb'
          \<and> self_instance_cfg smb' = Some c \<and> domain_member c \<and> clustered c"
    by simp
  from bad good show ?thesis by (rule conjI)
qed

text \<open>The message of the first example, with the set iterated in reverse insertion order.\<close>

lemma validate_example_message:
  "validate example_host
     (example_smb\<lparr>self_raw_configs :=
        example_raw\<lparr>raw_features := Some [''bogus'', ''domain'', ''nope'', ''bogus'']\<rparr>\<rparr>)
   = Inl (Error ''invalid instance features: bogus, nope'')"
  by (simp add: validate_def example_smb_def example_raw_def get_def example_host_def
        Features_valid_def Let_def py_int_def)

text \<open>
  Validation with the key \<^verbatim>\<open>metrics_port\<close> absent, or given as a string literal: the
  default \<^verbatim>\<open>'0'\<close> and the literal are converted.
\<close>

lemma validate_port_conversion:
  "map_sum id (\<lambda>smb'. map_option metrics_port (self_instance_cfg smb'))
     (validate example_host
        (example_smb\<lparr>self_raw_configs := example_raw\<lparr>raw_metrics_port := None\<rparr>\<rparr>))
     = Inr (Some 0)
   \<and> map_sum id (\<lambda>smb'. map_option metrics_port (self_instance_cfg smb'))
     (validate example_host
        (example_smb\<lparr>self_raw_configs := example_raw\<lparr>raw_metrics_port := Some (PyStr ''9922'')\<rparr>\<rparr>))
     = Inr (Some 9922)"
  by (simp add: validate_def example_smb_def example_raw_def get_def example_host_def
        Features_valid_def Let_def py_int_def int_of_str_def int_space_def is_digit_def)

subsection \<open>Endpoints, the cluster descriptor and the network mapper\<close>

text \<open>
  C7. For every endpoint list, the hook leaves the given endpoints in place, appends an
  endpoint for the SMB port exactly when no given endpoint has that port, and appends an
  endpoint for the metrics port only when the metrics port is greater than 0 and no
  given endpoint has that port (and none was just appended for it, which is the case when
  the two ports differ).
\<close>

theorem endpoints_appended_once:
  "customize_container_endpoints smb eps dt =
     eps
     @ (if \<exists>ep\<in>set eps. port ep = self_smb_port smb then []
        else [\<lparr>ip = ''0.0.0.0'', port = self_smb_port smb\<rparr>])
     @ (if self_metrics_port smb > 0
           \<and> \<not> (\<exists>ep\<in>set eps. port ep = self_metrics_port smb)
           \<and> self_metrics_port smb \<noteq> self_smb_port smb
        then [\<lparr>ip = ''0.0.0.0'', port = self_metrics_port smb\<rparr>] else [])"
  by (auto simp: customize_container_endpoints_def list_ex_iff Let_def)

theorem endpoints_appended_once_witness:
  "customize_container_endpoints example_smb [\<lparr>ip = ''10.0.0.5'', port = 445\<rparr>] ()
     = [\<lparr>ip = ''10.0.0.5'', port = 445\<rparr>, \<lparr>ip = ''0.0.0.0'', port = 9922\<rparr>]
   \<and> customize_container_endpoints example_smb [] ()
     = [\<lparr>ip = ''0.0.0.0'', port = 445\<rparr>, \<lparr>ip = ''0.0.0.0'', port = 9922\<rparr>]
   \<and> customize_container_endpoints example_smb
        [\<lparr>ip = ''10.0.0.5'', port = 9922\<rparr>, \<lparr>ip = ''10.0.0.5'', port = 445\<rparr>] ()
     = [\<lparr>ip = ''10.0.0.5'', port = 9922\<rparr>, \<lparr>ip = ''10.0.0.5'', port = 445\<rparr>]"
  using endpoints_appended_once [of example_smb "[\<lparr>ip = ''10.0.0.5'', port = 445\<rparr>]" "()"]
    endpoints_appended_once [of example_smb "[]" "()"]
    endpoints_appended_once [of example_smb
      "[\<lparr>ip = ''10.0.0.5'', port = 9922\<rparr>, \<lparr>ip = ''10.0.0.5'', port = 445\<rparr>]" "()"]
  by (simp add: example_smb_def)

text \<open>
  C5. For every configuration (clustered ones included, for which alone the descriptor
  is written), the \<open>recovery_lock\<close> of the generated cluster descriptor is \<open>!\<close>, then
  \<open>/usr/bin/samba-container ctdb-rados-mutex\<close> and a space, then \<open>cluster_lock_uri\<close>;
  with the URI \<open>rados://pool/obj\<close> it is
  \<open>!/usr/bin/samba-container ctdb-rados-mutex rados://pool/obj\<close>.
\<close>

theorem recovery_lock_value:
  "json_path (ctdb_stub_config m c) [''ctdb'', ''recovery_lock'']
     = Some (JStr (''!'' @ ''/usr/bin/samba-container ctdb-rados-mutex '' @ cluster_lock_uri c))
   \<and> json_path (ctdb_stub_config m (c\<lparr>cluster_lock_uri := ''rados://pool/obj''\<rparr>))
        [''ctdb'', ''recovery_lock'']
     = Some (JStr ''!/usr/bin/samba-container ctdb-rados-mutex rados://pool/obj'')"
  by (simp add: ctdb_stub_config_def MUTEX_SUBCMD_def SCC_def Let_def)

theorem recovery_lock_value_witness:
  "clustered (example_cfg\<lparr>clustered := True\<rparr>)
   \<and> cluster_lock_uri (example_cfg\<lparr>clustered := True\<rparr>) = ''rados://pool/obj''
   \<and> json_path (ctdb_stub_config (NetworkMapper_init example_ctx) (example_cfg\<lparr>clustered := True\<rparr>))
        [''ctdb'', ''recovery_lock'']
     = Some (JStr ''!/usr/bin/samba-container ctdb-rados-mutex rados://pool/obj'')"
  using recovery_lock_value [of "NetworkMapper_init example_ctx" "example_cfg\<lparr>clustered := True\<rparr>"]
  by (simp add: example_cfg_def)

text \<open>
  C2. For every cluster public IP, resolving it against the cached inventory keeps the
  address and yields, in order, every device of every destination network that the
  inventory has: destination order first, then device order, a network named twice
  giving its devices twice. A destination that the inventory lacks contributes nothing,
  and no path of the function raises; an address whose destinations are all unknown
  resolves to the empty interface list.
\<close>

theorem convert_resolves_destinations:
  "convert m addr =
     \<lparr>address = address addr,
      destinations = concat (map (\<lambda>net. case mapper_networks m net of
                                          None \<Rightarrow> [] | Some devs \<Rightarrow> devs)
                                 (destinations addr))\<rparr>
   \<and> ((\<forall>net\<in>set (destinations addr). mapper_networks m net = None)
        \<longrightarrow> destinations (convert m addr) = [])"
  by (simp add: convert_def fold_devs concat_all_None)

theorem convert_resolves_destinations_witness:
  "convert (load (NetworkMapper_init example_ctx))
       \<lparr>address = ''192.168.76.200/24'', destinations = [''netA'', ''netC'', ''netB'', ''netA'']\<rparr>
     = \<lparr>address = ''192.168.76.200/24'', destinations = [''eth0'', ''eth1'', ''eth2'', ''eth0'']\<rparr>
   \<and> mapper_networks (load (NetworkMapper_init example_ctx)) ''netC'' = None
   \<and> convert (load (NetworkMapper_init example_ctx))
       \<lparr>address = ''192.168.76.200/24'', destinations = [''netC'']\<rparr>
     = \<lparr>address = ''192.168.76.200/24'', destinations = []\<rparr>"
  using convert_resolves_destinations [of "load (NetworkMapper_init example_ctx)"
          "\<lparr>address = ''192.168.76.200/24'', destinations = [''netA'', ''netC'', ''netB'', ''netA'']\<rparr>"]
    convert_resolves_destinations [of "load (NetworkMapper_init example_ctx)"
          "\<lparr>address = ''192.168.76.200/24'', destinations = [''netC'']\<rparr>"]
  by (simp add: load_def NetworkMapper_init_def example_ctx_def example_networks_def)

end
